theory Spec2Isabelle
  imports Complex_Main "HOL-Library.Extended_Nat" "HOL-Library.Log_Nat" "HOL-Library.Sublist"
begin

section \<open>The room brain of the colony controller\<close>

text \<open>
  A shallow embedding of \<^verbatim>\<open>src/brains/Brain_Room.ts\<close> (class \<^verbatim>\<open>RoomBrain\<close>): the
  hauler calculators, the task catalogue \<^verbatim>\<open>getTasks\<close>, the assignment engine
  \<^verbatim>\<open>getMostUrgentTask\<close> / \<^verbatim>\<open>assignTask\<close>, and the spawn scheduler
  \<^verbatim>\<open>handleSpawnOperations\<close>.

  JavaScript numbers are IEEE doubles. The quantities of the game that the brain reads
  (hits, energy, ranges, levels, costs) are integers and are compared as such; the
  hauler calculators multiply and divide, and their numbers are modelled as doubles
  with the rounding of each operation.
\<close>

subsection \<open>Data\<close>

datatype BodyPart = MOVE | WORK | CARRY | ATTACK | RANGED_ATTACK | HEAL | CLAIM | TOUGH

text \<open>
  A spawn. \<^verbatim>\<open>spawn.cost(pattern)\<close> is a prototype extension defined outside this file; it
  enters as a field.
\<close>

record StructureSpawn =
  spawning :: bool
  cost :: "BodyPart list \<Rightarrow> nat"


record Storage =
  storageEnergy :: nat
  storageLinked :: bool

subsection \<open>Rooms, creeps and tasks\<close>

text \<open>
  Every target of a task is a \<^verbatim>\<open>RoomObject\<close>; the source reads whichever properties the
  task type needs (\<^verbatim>\<open>hits\<close>, \<^verbatim>\<open>energy\<close>, \<^verbatim>\<open>amount\<close>, \<^verbatim>\<open>store[RESOURCE_ENERGY]\<close>,
  \<^verbatim>\<open>level\<close>, \<^verbatim>\<open>my\<close>), so one record carries them all. \<^verbatim>\<open>ref\<close> is the object's identity.
\<close>

record RoomObject =
  ref :: nat
  pos :: "int \<times> int"
  structureType :: string
  hits :: int
  hitsMax :: int
  energy :: int
  energyCapacity :: int
  amount :: int
  storeEnergy :: int
  level :: nat
  my :: bool

datatype FlagKind =
  VisionStationary | ClaimAndIncubate | Guard | Colony | Destroyer | Sieger | RemoteMine
  | OtherFlag

record Flag =
  flagKind :: FlagKind
  pathLengthToAssignedRoomStorage :: nat

text \<open>
  The room as the brain reads it. \<^verbatim>\<open>targetedBy\<close> is a property of every room object,
  supplied outside this file; objects are shared by reference between the room's lists, so
  the table of creep names is kept once per object identity.
\<close>

record Room =
  roomName :: string
  controller :: "RoomObject option"
  spawns :: "StructureSpawn list"
  flags :: "Flag list"
  droppedEnergy :: "RoomObject list"
  containers :: "RoomObject list"
  towers :: "RoomObject list"
  sinks :: "RoomObject list"
  repairables :: "RoomObject list"
  structureSites :: "RoomObject list"
  roadSites :: "RoomObject list"
  barriers :: "RoomObject list"
  storage :: "Storage option"
  energyCapacityAvailable :: nat
  targetedBy :: "nat \<Rightarrow> string list"

text \<open>
  A creep: its name, \<^verbatim>\<open>memory.role\<close>, the name of the room it is in, \<^verbatim>\<open>carry.energy\<close>,
  \<^verbatim>\<open>carryCapacity\<close>, and two methods of the game engine as fields:
  \<^verbatim>\<open>getActiveBodyparts(type)\<close> and \<^verbatim>\<open>pos.getRangeTo(target)\<close>.
\<close>

record Creep =
  creepName :: string
  role :: string
  creepRoom :: string
  carryEnergy :: int
  carryCapacity :: int
  getActiveBodyparts :: "BodyPart \<Rightarrow> nat"
  getRangeTo :: "RoomObject \<Rightarrow> int"

text \<open>
  A task: its name, its target, and the cap \<^verbatim>\<open>maxPerTarget\<close> on the creeps that may target
  the same object (\<^verbatim>\<open>Infinity\<close> is \<^term>\<open>\<infinity>\<close>).
\<close>

record Task =
  name :: string
  target :: RoomObject
  maxPerTarget :: enat

text \<open>
  Modelled from the spec: the task classes (\<^verbatim>\<open>taskPickup\<close>, \<^verbatim>\<open>taskRecharge\<close>, ...) are
  defined in other files. A constructor of a task class passes the fixed name of the
  class and the target to \<^verbatim>\<open>Task\<close> and sets the settings of the class. The names are
  the ones the brain's table \<^verbatim>\<open>taskToExecute\<close> gives to the categories; the
  specification speaks of the category fortify where \<^verbatim>\<open>assignTask\<close> tests the name
  \<^verbatim>\<open>'fortify'\<close>. The cap \<^verbatim>\<open>maxPerTarget\<close> of each class is the parameter \<open>caps\<close>, indexed
  by the name of the class.
\<close>

definition newTask :: "(string \<Rightarrow> enat) \<Rightarrow> string \<Rightarrow> RoomObject \<Rightarrow> Task" where
  "newTask caps taskName tgt = \<lparr>name = taskName, target = tgt, maxPerTarget = caps taskName\<rparr>"

definition taskPickup :: "(string \<Rightarrow> enat) \<Rightarrow> RoomObject \<Rightarrow> Task" where
  "taskPickup caps = newTask caps ''pickup''"

definition taskRecharge :: "(string \<Rightarrow> enat) \<Rightarrow> RoomObject \<Rightarrow> Task" where
  "taskRecharge caps = newTask caps ''recharge''"

definition taskSupply :: "(string \<Rightarrow> enat) \<Rightarrow> RoomObject \<Rightarrow> Task" where
  "taskSupply caps = newTask caps ''supply''"

definition taskRepair :: "(string \<Rightarrow> enat) \<Rightarrow> RoomObject \<Rightarrow> Task" where
  "taskRepair caps = newTask caps ''repair''"

definition taskBuild :: "(string \<Rightarrow> enat) \<Rightarrow> RoomObject \<Rightarrow> Task" where
  "taskBuild caps = newTask caps ''build''"

definition taskFortify :: "(string \<Rightarrow> enat) \<Rightarrow> RoomObject \<Rightarrow> Task" where
  "taskFortify caps = newTask caps ''fortify''"

definition taskUpgrade :: "(string \<Rightarrow> enat) \<Rightarrow> RoomObject \<Rightarrow> Task" where
  "taskUpgrade caps = newTask caps ''upgrade''"

subsection \<open>The brain and its constructor\<close>

record StorageBuffer =
  bufLinker :: "nat option"
  bufWorker :: nat
  bufUpgrader :: nat
  bufDefault :: nat

record Settings =
  fortifyLevel :: int
  workerPatternRepetitionLimit :: nat
  maxWorkersPerRoom :: nat
  incubationWorkersToSend :: "nat option"
  supplierPatternRepetitionLimit :: nat
  haulerPatternRepetitionLimit :: nat
  remoteHaulerPatternRepetitionLimit :: nat
  minersPerSource :: nat
  storageBuffer :: StorageBuffer
  unloadStorageBuffer :: "nat option"
  reserveBuffer :: nat
  maxAssistLifetimePercentage :: "rat option"

record RoomBrain =
  brainName :: string
  room :: Room
  spawn :: "StructureSpawn option"
  incubating :: bool
  settings :: Settings
  overrideWorkersPerRoom :: "string \<rightharpoonup> nat"
  overrideFortifyLevel :: "string \<rightharpoonup> int"
  taskPriorities :: "string list"
  taskToExecute :: "string \<rightharpoonup> string"
  assignmentRoles :: "string \<rightharpoonup> string list"
  assignmentConditions :: "string \<rightharpoonup> (Creep \<Rightarrow> bool)"

definition normalSettings :: Settings where
  "normalSettings =
     \<lparr>fortifyLevel = 1000000,
      workerPatternRepetitionLimit = 30,
      maxWorkersPerRoom = 1,
      incubationWorkersToSend = Some 3,
      supplierPatternRepetitionLimit = 4,
      haulerPatternRepetitionLimit = 7,
      remoteHaulerPatternRepetitionLimit = 8,
      minersPerSource = 1,
      storageBuffer = \<lparr>bufLinker = Some 75000, bufWorker = 50000, bufUpgrader = 75000,
                        bufDefault = 0\<rparr>,
      unloadStorageBuffer = Some 750000,
      reserveBuffer = 3000,
      maxAssistLifetimePercentage = Some (1 / 10)\<rparr>"

definition incubatingSettings :: Settings where
  "incubatingSettings =
     \<lparr>fortifyLevel = 10000,
      workerPatternRepetitionLimit = 10,
      maxWorkersPerRoom = 3,
      incubationWorkersToSend = None,
      supplierPatternRepetitionLimit = 4,
      haulerPatternRepetitionLimit = 7,
      remoteHaulerPatternRepetitionLimit = 8,
      minersPerSource = 1,
      storageBuffer = \<lparr>bufLinker = None, bufWorker = 1000, bufUpgrader = 5000,
                        bufDefault = 0\<rparr>,
      unloadStorageBuffer = None,
      reserveBuffer = 3000,
      maxAssistLifetimePercentage = None\<rparr>"

definition hasCarryAndRoom :: "Creep \<Rightarrow> bool" where
  "hasCarryAndRoom creep \<longleftrightarrow>
     getActiveBodyparts creep CARRY > 0 \<and> carryEnergy creep < carryCapacity creep"

definition hasCarryAndEnergy :: "Creep \<Rightarrow> bool" where
  "hasCarryAndEnergy creep \<longleftrightarrow> getActiveBodyparts creep CARRY > 0 \<and> carryEnergy creep > 0"

definition hasWorkAndEnergy :: "Creep \<Rightarrow> bool" where
  "hasWorkAndEnergy creep \<longleftrightarrow> getActiveBodyparts creep WORK > 0 \<and> carryEnergy creep > 0"

text \<open>
  The constructor, given the room \<^verbatim>\<open>Game.rooms[roomName]\<close>. The spawn is the first one
  that is not spawning; the room is incubating when one of its flags is a
  claim-and-incubate flag.
\<close>

definition newRoomBrain :: "string \<Rightarrow> Room \<Rightarrow> RoomBrain" where
  "newRoomBrain rName rm =
     (let sp = (case filter (\<lambda>s. \<not> spawning s) (spawns rm) of [] \<Rightarrow> None | s # _ \<Rightarrow> Some s);
          incub = (length (filter (\<lambda>f. flagKind f = ClaimAndIncubate) (flags rm)) > 0);
          settings0 =
            (case controller rm of
               None \<Rightarrow> normalSettings
             | Some c \<Rightarrow> normalSettings\<lparr>fortifyLevel := min (10 ^ (max (level c) 3)) 1000000\<rparr>);
          settings1 = (if incub then incubatingSettings else settings0);
          roles0 =
            [''pickup'' \<mapsto> [],
             ''collect'' \<mapsto> [''hauler''],
             ''supplyTowers'' \<mapsto> [''supplier'', ''hauler''],
             ''supply'' \<mapsto> [''supplier'', ''hauler''],
             ''repair'' \<mapsto> [''worker'', ''miner'', ''guard''],
             ''build'' \<mapsto> [''worker'', ''miner''],
             ''buildRoads'' \<mapsto> [''worker'', ''guard''],
             ''fortify'' \<mapsto> [''worker''],
             ''upgrade'' \<mapsto> [''worker'', ''upgrader'']];
          roles1 =
            (case controller rm of
               None \<Rightarrow> roles0
             | Some c \<Rightarrow> if level c = 8 then roles0(''upgrade'' \<mapsto> [''upgrader'']) else roles0)
      in \<lparr>brainName = rName,
          room = rm,
          spawn = sp,
          incubating = incub,
          settings = settings1,
          overrideWorkersPerRoom = Map.empty,
          overrideFortifyLevel = Map.empty,
          taskPriorities =
            [''supplyTowers'', ''supply'', ''pickup'', ''collect'', ''repair'', ''build'',
             ''buildRoads'', ''fortify'', ''upgrade''],
          taskToExecute =
            [''pickup'' \<mapsto> ''pickup'',
             ''collect'' \<mapsto> ''recharge'',
             ''supplyTowers'' \<mapsto> ''supply'',
             ''supply'' \<mapsto> ''supply'',
             ''repair'' \<mapsto> ''repair'',
             ''build'' \<mapsto> ''build'',
             ''buildRoads'' \<mapsto> ''build'',
             ''fortify'' \<mapsto> ''fortify'',
             ''upgrade'' \<mapsto> ''upgrade''],
          assignmentRoles = roles1,
          assignmentConditions =
            [''pickup'' \<mapsto> hasCarryAndRoom,
             ''collect'' \<mapsto> hasCarryAndRoom,
             ''supplyTowers'' \<mapsto> hasCarryAndEnergy,
             ''supply'' \<mapsto> hasCarryAndEnergy,
             ''repair'' \<mapsto> hasWorkAndEnergy,
             ''build'' \<mapsto> hasWorkAndEnergy,
             ''buildRoads'' \<mapsto> hasWorkAndEnergy,
             ''fortify'' \<mapsto> hasWorkAndEnergy,
             ''upgrade'' \<mapsto> hasWorkAndEnergy]\<rparr>)"

subsection \<open>The task catalogue\<close>

text \<open>
  The filter of \<^verbatim>\<open>case 'repair'\<close>; \<^verbatim>\<open>STRUCTURE_CONTAINER\<close> and \<^verbatim>\<open>STRUCTURE_ROAD\<close> are the
  engine's constants \<^verbatim>\<open>'container'\<close> and \<^verbatim>\<open>'road'\<close>.
\<close>

definition repairWorthy :: "RoomObject \<Rightarrow> bool" where
  "repairWorthy s \<longleftrightarrow>
     hits s < hitsMax s \<and>
     (structureType s \<noteq> ''container'' \<or> (of_int (hits s) :: rat) < (7 / 10) * of_int (hitsMax s)) \<and>
     (structureType s \<noteq> ''road'' \<or> (of_int (hits s) :: rat) < (7 / 10) * of_int (hitsMax s))"

text \<open>
  The fortify level of \<^verbatim>\<open>getTasks('fortify')\<close>: the setting, unless the override table
  has a truthy (non-zero) entry for the room.
\<close>

definition effectiveFortifyLevel :: "RoomBrain \<Rightarrow> int" where
  "effectiveFortifyLevel b =
     (case overrideFortifyLevel b (roomName (room b)) of
        None \<Rightarrow> fortifyLevel (settings b)
      | Some v \<Rightarrow> if v \<noteq> 0 then v else fortifyLevel (settings b))"

definition getTasks :: "(string \<Rightarrow> enat) \<Rightarrow> RoomBrain \<Rightarrow> string \<Rightarrow> Task list" where
  "getTasks caps b taskType =
     (if taskType = ''pickup'' then
        map (taskPickup caps) (filter (\<lambda>drop. amount drop > 100) (droppedEnergy (room b)))
      else if taskType = ''collect'' then
        map (taskRecharge caps)
          (filter (\<lambda>container. storeEnergy container > 1000) (containers (room b)))
      else if taskType = ''supplyTowers'' then
        map (taskSupply caps)
          (filter (\<lambda>tower. energy tower < energyCapacity tower) (towers (room b)))
      else if taskType = ''supply'' then
        map (taskSupply caps)
          (filter (\<lambda>structure. energy structure < energyCapacity structure) (sinks (room b)))
      else if taskType = ''repair'' then
        map (taskRepair caps) (filter repairWorthy (repairables (room b)))
      else if taskType = ''build'' then
        map (taskBuild caps) (structureSites (room b))
      else if taskType = ''buildRoads'' then
        map (taskBuild caps) (roadSites (room b))
      else if taskType = ''fortify'' then
        map (taskFortify caps)
          (filter (\<lambda>s. hits s < effectiveFortifyLevel b) (barriers (room b)))
      else if taskType = ''upgrade'' then
        (case controller (room b) of
           None \<Rightarrow> []
         | Some c \<Rightarrow> if my c then map (taskUpgrade caps) [c] else [])
      else [])"

subsection \<open>Task assignment\<close>

definition underCap :: "RoomBrain \<Rightarrow> Task \<Rightarrow> bool" where
  "underCap b task \<longleftrightarrow>
     enat (length (targetedBy (room b) (ref (target task)))) < maxPerTarget task"

fun getMostUrgentTask :: "(string \<Rightarrow> enat) \<Rightarrow> RoomBrain \<Rightarrow> string list \<Rightarrow> Task list" where
  "getMostUrgentTask caps b [] = []"
| "getMostUrgentTask caps b (taskType # rest) =
     (let tasks = filter (underCap b) (getTasks caps b taskType)
      in if length tasks > 0 then tasks else getMostUrgentTask caps b rest)"

text \<open>
  \<^verbatim>\<open>_.filter(this.taskPriorities, task => this.assignmentRoles[task].includes(role) &&
  this.assignmentConditions[task](creep))\<close>. A priority with no entry in the
  role table, or an eligible one with no entry in the condition table, raises a
  \<^verbatim>\<open>TypeError\<close>: \<^term>\<open>None\<close>.
\<close>

fun filterApplicable :: "RoomBrain \<Rightarrow> Creep \<Rightarrow> string list \<Rightarrow> string list option" where
  "filterApplicable b creep [] = Some []"
| "filterApplicable b creep (task # rest) =
     (case assignmentRoles b task of
        None \<Rightarrow> None
      | Some roles \<Rightarrow>
          if role creep \<in> set roles then
            (case assignmentConditions b task of
               None \<Rightarrow> None
             | Some cond \<Rightarrow>
                 (case filterApplicable b creep rest of
                    None \<Rightarrow> None
                  | Some r \<Rightarrow> Some (if cond creep then task # r else r)))
          else filterApplicable b creep rest)"

definition applicableTasks :: "RoomBrain \<Rightarrow> Creep \<Rightarrow> string list option" where
  "applicableTasks b creep = filterApplicable b creep (taskPriorities b)"

text \<open>
  The outcome of \<^verbatim>\<open>assignTask(creep)\<close>: a \<^verbatim>\<open>TypeError\<close> of the eligibility filter, the
  empty string when there is nothing to assign, or the value of \<^verbatim>\<open>creep.assign(task)\<close>
  for the chosen task (\<^verbatim>\<open>creep.assign\<close> belongs to another file). \<^verbatim>\<open>_.sortBy\<close> is a
  stable sort, as \<^const>\<open>sort_key\<close> is.
\<close>

datatype Outcome = TypeError | NoTask | Assign Task

text \<open>
  The choice among the tasks of the chosen category, the body of
  \<^verbatim>\<open>if (tasks.length > 0) { ... }\<close>: the task of least \<^verbatim>\<open>hits\<close> when the first task is a
  fortify task; else the task of least range for a creep in the brain's room and the
  first task for a creep elsewhere.
\<close>

definition chooseTask :: "RoomBrain \<Rightarrow> Creep \<Rightarrow> Task list \<Rightarrow> Task option" where
  "chooseTask b creep tasks =
     (case tasks of
        [] \<Rightarrow> None
      | first # _ \<Rightarrow>
          if name first = ''fortify'' then
            (case sort_key (\<lambda>task. hits (target task)) tasks of [] \<Rightarrow> None | t # _ \<Rightarrow> Some t)
          else if creepRoom creep = roomName (room b) then
            (case sort_key (\<lambda>task. getRangeTo creep (target task)) tasks of
               [] \<Rightarrow> None
             | t # _ \<Rightarrow> Some t)
          else Some first)"

definition assignTask :: "(string \<Rightarrow> enat) \<Rightarrow> RoomBrain \<Rightarrow> Creep \<Rightarrow> Outcome" where
  "assignTask caps b creep =
     (case applicableTasks b creep of
        None \<Rightarrow> TypeError
      | Some applicable \<Rightarrow>
          (let tasks = getMostUrgentTask caps b applicable
           in if length tasks > 0 then
                (case chooseTask b creep tasks of None \<Rightarrow> NoTask | Some task \<Rightarrow> Assign task)
              else NoTask))"

text \<open>
  The value that \<^verbatim>\<open>assignTask\<close> returns, given the commit step \<^verbatim>\<open>creep.assign\<close>: its
  answer for the chosen task, or the empty string.
\<close>

fun returned :: "(Creep \<Rightarrow> Task \<Rightarrow> string) \<Rightarrow> Creep \<Rightarrow> Outcome \<Rightarrow> string option" where
  "returned assign creep TypeError = None"
| "returned assign creep NoTask = Some ''''"
| "returned assign creep (Assign task) = Some (assign creep task)"

subsection \<open>A cycle of assignments\<close>





text \<open>The task types that \<^verbatim>\<open>getTasks\<close> knows: the labels of its \<^verbatim>\<open>switch\<close>.\<close>

definition taskTypes :: "string list" where
  "taskTypes =
     [''pickup'', ''collect'', ''supplyTowers'', ''supply'', ''repair'', ''build'',
      ''buildRoads'', ''fortify'', ''upgrade'']"







subsection \<open>Numbers\<close>












subsection \<open>Hauler sizing\<close>





subsection \<open>The spawn scheduler\<close>

text \<open>
  A spawn operation reads the world and answers with a creep to build or with
  \<^verbatim>\<open>null\<close>. The operations consult collaborators outside this file (\<^verbatim>\<open>role.create\<close>,
  \<^verbatim>\<open>flag.action\<close>, the assigned-creep counters), which may have effects; an operation is
  therefore a function from the state of the world \<open>'s\<close> to its answer and the state it
  leaves behind. The four stages are methods of the brain and enter as a record.
\<close>

record ('s, 'c) SpawnOperations =
  handleCoreSpawnOperations :: "'s \<Rightarrow> 'c option \<times> 's"
  handleIncubationSpawnOperations :: "'s \<Rightarrow> 'c option \<times> 's"
  handleAssignedSpawnOperations :: "'s \<Rightarrow> 'c option \<times> 's"
  handleInferredSpawnOperations :: "'s \<Rightarrow> 'c option \<times> 's"

text \<open>
  \<^verbatim>\<open>for (let spawnThis of prioritizedSpawnOperations) { creep = spawnThis();
  if (creep != null) { return this.spawn.createCreep(...) } } return null\<close>
\<close>

fun spawnFirst :: "('c \<Rightarrow> 'r) \<Rightarrow> ('s \<Rightarrow> 'c option \<times> 's) list \<Rightarrow> 's \<Rightarrow> 'r option \<times> 's" where
  "spawnFirst createCreep [] s = (None, s)"
| "spawnFirst createCreep (spawnThis # rest) s =
     (case spawnThis s of
        (Some creep, s') \<Rightarrow> (Some (createCreep creep), s')
      | (None, s') \<Rightarrow> spawnFirst createCreep rest s')"

definition handleSpawnOperations ::
  "RoomBrain \<Rightarrow> ('s, 'c) SpawnOperations \<Rightarrow> ('c \<Rightarrow> 'r) \<Rightarrow> 's \<Rightarrow> 'r option \<times> 's" where
  "handleSpawnOperations b ops createCreep s =
     (case spawn b of
        None \<Rightarrow> (None, s)
      | Some spn \<Rightarrow>
          if \<not> spawning spn then
            (let prioritizedSpawnOperations =
                   [handleCoreSpawnOperations ops,
                    handleIncubationSpawnOperations ops,
                    handleAssignedSpawnOperations ops,
                    handleInferredSpawnOperations ops]
             in spawnFirst createCreep prioritizedSpawnOperations s)
          else (None, s))"

text \<open>
  The call-count check: each stage is wrapped so that evaluating it leaves its name in
  a log that travels with the state.
\<close>

datatype Stage = Core | Incubation | Assigned | Inferred

definition logged ::
  "Stage \<Rightarrow> ('s \<Rightarrow> 'c option \<times> 's) \<Rightarrow> Stage list \<times> 's \<Rightarrow> 'c option \<times> (Stage list \<times> 's)" where
  "logged st f = (\<lambda>(trace, s). case f s of (r, s') \<Rightarrow> (r, (trace @ [st], s')))"

definition loggedOperations ::
  "('s, 'c) SpawnOperations \<Rightarrow> (Stage list \<times> 's, 'c) SpawnOperations" where
  "loggedOperations ops =
     \<lparr>handleCoreSpawnOperations = logged Core (handleCoreSpawnOperations ops),
      handleIncubationSpawnOperations = logged Incubation (handleIncubationSpawnOperations ops),
      handleAssignedSpawnOperations = logged Assigned (handleAssignedSpawnOperations ops),
      handleInferredSpawnOperations = logged Inferred (handleInferredSpawnOperations ops)\<rparr>"

subsection \<open>Example configurations\<close>


definition exSpawn :: StructureSpawn where
  "exSpawn = \<lparr>spawning = False, cost = (\<lambda>p. 50 * length p)\<rparr>"

definition exStorage :: Storage where
  "exStorage = \<lparr>storageEnergy = 0, storageLinked = False\<rparr>"


text \<open>
  A level-5 room of one's own with the spawn, the storage, 1500 energy capacity, three
  walls of 500, 2000 and 100 hits (the weakest one far away), a pile of dropped energy and
  a well-filled container; a worker and a hauler stand in the room, a second worker is
  travelling in another room. Every task type admits one creep per target.
\<close>

definition exObject :: "nat \<Rightarrow> int \<times> int \<Rightarrow> string \<Rightarrow> int \<Rightarrow> int \<Rightarrow> RoomObject" where
  "exObject r p ty h hmax =
     \<lparr>ref = r, pos = p, structureType = ty, hits = h, hitsMax = hmax, energy = 0,
      energyCapacity = 0, amount = 0, storeEnergy = 0, level = 0, my = False\<rparr>"

definition exController :: "nat \<Rightarrow> RoomObject" where
  "exController l = (exObject 1 (25, 25) ''controller'' 0 0)\<lparr>level := l, my := True\<rparr>"

definition exWall500 :: RoomObject where
  "exWall500 = exObject 2 (10, 10) ''constructedWall'' 500 300000000"

definition exWall2000 :: RoomObject where
  "exWall2000 = exObject 3 (11, 10) ''constructedWall'' 2000 300000000"

definition exWall100 :: RoomObject where
  "exWall100 = exObject 4 (40, 40) ''constructedWall'' 100 300000000"

definition exWalls :: "RoomObject list" where
  "exWalls = [exWall500, exWall2000, exWall100]"

definition exPile :: RoomObject where
  "exPile = (exObject 5 (12, 12) '''' 0 0)\<lparr>amount := 500\<rparr>"

definition exContainer :: RoomObject where
  "exContainer = (exObject 6 (30, 30) ''container'' 100000 250000)\<lparr>storeEnergy := 2000\<rparr>"

definition exRoom :: Room where
  "exRoom =
     \<lparr>roomName = ''W1N1'', controller = Some (exController 5), spawns = [exSpawn], flags = [],
      droppedEnergy = [exPile], containers = [exContainer], towers = [], sinks = [],
      repairables = [], structureSites = [], roadSites = [], barriers = exWalls,
      storage = Some exStorage, energyCapacityAvailable = 1500, targetedBy = (\<lambda>_. [])\<rparr>"

definition exCaps :: "string \<Rightarrow> enat" where
  "exCaps = (\<lambda>_. 1)"

text \<open>The engine's range between a position and an object of the same room.\<close>

definition linearRange :: "int \<times> int \<Rightarrow> RoomObject \<Rightarrow> int" where
  "linearRange p tgt = max \<bar>fst p - fst (pos tgt)\<bar> \<bar>snd p - snd (pos tgt)\<bar>"

definition exWorker :: Creep where
  "exWorker =
     \<lparr>creepName = ''worker1'', role = ''worker'', creepRoom = ''W1N1'',
      carryEnergy = 50, carryCapacity = 50,
      getActiveBodyparts = (\<lambda>p. if p = WORK \<or> p = CARRY \<or> p = MOVE then 1 else 0),
      getRangeTo = linearRange (10, 11)\<rparr>"

definition exTraveller :: Creep where
  "exTraveller = exWorker\<lparr>creepName := ''worker2'', creepRoom := ''W2N1''\<rparr>"

definition exHauler :: Creep where
  "exHauler =
     \<lparr>creepName = ''hauler1'', role = ''hauler'', creepRoom = ''W1N1'',
      carryEnergy = 0, carryCapacity = 100,
      getActiveBodyparts = (\<lambda>p. if p = CARRY \<or> p = MOVE then 2 else 0),
      getRangeTo = linearRange (12, 13)\<rparr>"

text \<open>The same room with two construction sites, and with four structures to repair.\<close>

definition exFarSite :: RoomObject where
  "exFarSite = exObject 10 (35, 35) ''extension'' 0 0"

definition exNearSite :: RoomObject where
  "exNearSite = exObject 11 (12, 12) ''tower'' 0 0"

definition exSites :: "RoomObject list" where
  "exSites = [exFarSite, exNearSite]"

definition exBuildRoom :: Room where
  "exBuildRoom = exRoom\<lparr>structureSites := exSites\<rparr>"

definition exRoad :: RoomObject where
  "exRoad = exObject 20 (3, 3) ''road'' 4000 5000"

definition exTower :: RoomObject where
  "exTower = exObject 21 (8, 8) ''tower'' 3000 3000"

definition exExtension :: RoomObject where
  "exExtension = exObject 22 (9, 9) ''extension'' 500 1000"

definition exRepairables :: "RoomObject list" where
  "exRepairables = [exRoad, exContainer, exTower, exExtension]"

definition exRepairRoom :: Room where
  "exRepairRoom = exRoom\<lparr>repairables := exRepairables\<rparr>"

text \<open>The same room at controller level 8.\<close>

definition exRoom8 :: Room where
  "exRoom8 = exRoom\<lparr>controller := Some (exController 8)\<rparr>"

text \<open>The brains that the constructor builds for these rooms.\<close>

abbreviation exBrain :: RoomBrain where
  "exBrain \<equiv> newRoomBrain ''W1N1'' exRoom"

abbreviation exBuildBrain :: RoomBrain where
  "exBuildBrain \<equiv> newRoomBrain ''W1N1'' exBuildRoom"

abbreviation exRepairBrain :: RoomBrain where
  "exRepairBrain \<equiv> newRoomBrain ''W1N1'' exRepairRoom"


text \<open>
  Spawn operations over a world that counts the calls of \<^verbatim>\<open>flag.action\<close>: the core
  operations have nothing to build, the incubation operations ask for a worker, the
  assigned operations would call a flag's action and ask for a guard, the inferred
  operations would ask for a hauler.
\<close>

definition exOperations :: "(nat, string) SpawnOperations" where
  "exOperations =
     \<lparr>handleCoreSpawnOperations = (\<lambda>calls. (None, calls)),
      handleIncubationSpawnOperations = (\<lambda>calls. (Some ''worker'', calls)),
      handleAssignedSpawnOperations = (\<lambda>calls. (Some ''guard'', Suc calls)),
      handleInferredSpawnOperations = (\<lambda>calls. (Some ''hauler'', calls))\<rparr>"

text \<open>
  The objects that still exist when the worker is served: the wall of 100 hits has been
  torn down since the walls were listed. A commit step that checks the existence of
  the target answers with the task's name, or with the empty string for a target that
  is gone.
\<close>

definition exSurvivors :: "nat set" where
  "exSurvivors = {1, 2, 3, 5, 6}"

definition exAssign :: "Creep \<Rightarrow> Task \<Rightarrow> string" where
  "exAssign creep task = (if ref (target task) \<in> exSurvivors then name task else [])"

section \<open>Properties\<close>

lemmas ex_objects =
  exObject_def exWall500_def exWall2000_def exWall100_def exFarSite_def exNearSite_def
  exRoad_def exTower_def exExtension_def exContainer_def exPile_def exController_def

subsection \<open>The assignment engine: auxiliary facts\<close>

lemma sort_key_head:
  assumes "xs \<noteq> []"
  shows "\<exists>t rest. sort_key f xs = t # rest \<and> t \<in> set xs \<and> (\<forall>u \<in> set xs. f t \<le> f u)"
proof -
  from assms have "sort_key f xs \<noteq> []" by (metis length_0_conv length_sort)
  then obtain t rest where eq: "sort_key f xs = t # rest" by (cases "sort_key f xs") auto
  have "sorted (map f (t # rest))" using sorted_sort_key [of f xs] by (simp only: eq)
  then have le: "\<forall>u \<in> set rest. f t \<le> f u" by simp
  have st: "set (t # rest) = set xs" using set_sort [of f xs] by (simp only: eq)
  then have "t \<in> set xs" by auto
  moreover have "\<forall>u \<in> set xs. f t \<le> f u" using le st by auto
  ultimately show ?thesis using eq by blast
qed

lemma getMostUrgentTask_first:
  assumes "getMostUrgentTask caps b tys \<noteq> []"
  shows "\<exists>pre ty post. tys = pre @ ty # post
           \<and> (\<forall>c \<in> set pre. filter (underCap b) (getTasks caps b c) = [])
           \<and> filter (underCap b) (getTasks caps b ty) \<noteq> []
           \<and> getMostUrgentTask caps b tys = filter (underCap b) (getTasks caps b ty)"
  using assms
proof (induction tys)
  case Nil
  then show ?case by simp
next
  case (Cons a tys)
  show ?case
  proof (cases "filter (underCap b) (getTasks caps b a) = []")
    case True
    with Cons.prems have "getMostUrgentTask caps b tys \<noteq> []" by (simp add: Let_def)
    from Cons.IH [OF this] obtain pre ty post where
      h: "tys = pre @ ty # post" "\<forall>c \<in> set pre. filter (underCap b) (getTasks caps b c) = []"
         "filter (underCap b) (getTasks caps b ty) \<noteq> []"
         "getMostUrgentTask caps b tys = filter (underCap b) (getTasks caps b ty)"
      by blast
    have "a # tys = (a # pre) @ ty # post" using h(1) by simp
    moreover have "\<forall>c \<in> set (a # pre). filter (underCap b) (getTasks caps b c) = []"
      using h(2) True by simp
    moreover have "getMostUrgentTask caps b (a # tys) = filter (underCap b) (getTasks caps b ty)"
      using True h(4) by (simp add: Let_def)
    ultimately show ?thesis using h(3) by blast
  next
    case False
    then have "getMostUrgentTask caps b (a # tys) = filter (underCap b) (getTasks caps b a)"
      by (simp add: Let_def)
    moreover have "a # tys = [] @ a # tys" by simp
    ultimately show ?thesis using False by (metis empty_iff list.set(1))
  qed
qed

lemma getMostUrgentTask_skip:
  assumes "\<forall>c \<in> set pre. filter (underCap b) (getTasks caps b c) = []"
  shows "getMostUrgentTask caps b (pre @ rest) = getMostUrgentTask caps b rest"
  using assms by (induction pre) (simp_all add: Let_def)

lemma getMostUrgentTask_nonempty:
  assumes "ty \<in> set tys" and "filter (underCap b) (getTasks caps b ty) \<noteq> []"
  shows "getMostUrgentTask caps b tys \<noteq> []"
  using assms by (induction tys) (auto simp add: Let_def)

lemma chooseTask_mem:
  assumes "chooseTask b creep tasks = Some t"
  shows "t \<in> set tasks"
proof (cases tasks)
  case Nil
  with assms show ?thesis by (simp add: chooseTask_def)
next
  case (Cons first rest)
  then have ne: "tasks \<noteq> []" by simp
  from sort_key_head [OF ne, of "\<lambda>task. hits (target task)"] obtain t1 r1 where
    s1: "sort_key (\<lambda>task. hits (target task)) tasks = t1 # r1" "t1 \<in> set tasks" by blast
  from sort_key_head [OF ne, of "\<lambda>task. getRangeTo creep (target task)"] obtain t2 r2 where
    s2: "sort_key (\<lambda>task. getRangeTo creep (target task)) tasks = t2 # r2" "t2 \<in> set tasks" by blast
  show ?thesis
    using assms s1 s2 Cons unfolding chooseTask_def
    by (auto split: if_splits)
qed

lemma chooseTask_Some:
  assumes "tasks \<noteq> []"
  shows "\<exists>t. chooseTask b creep tasks = Some t"
proof -
  from assms obtain first rest where c: "tasks = first # rest" by (cases tasks) auto
  from sort_key_head [OF assms, of "\<lambda>task. hits (target task)"] obtain t1 r1 where
    s1: "sort_key (\<lambda>task. hits (target task)) tasks = t1 # r1" by blast
  from sort_key_head [OF assms, of "\<lambda>task. getRangeTo creep (target task)"] obtain t2 r2 where
    s2: "sort_key (\<lambda>task. getRangeTo creep (target task)) tasks = t2 # r2" by blast
  show ?thesis
    using s1 s2 c unfolding chooseTask_def by auto
qed

lemma chooseTask_fortify:
  assumes ne: "tasks \<noteq> []" and f: "name (hd tasks) = ''fortify''"
  shows "\<exists>t. chooseTask b creep tasks = Some t \<and> t \<in> set tasks
           \<and> (\<forall>u \<in> set tasks. hits (target t) \<le> hits (target u))"
proof -
  from ne obtain first rest where c: "tasks = first # rest" by (cases tasks) auto
  from sort_key_head [OF ne, of "\<lambda>task. hits (target task)"] obtain t1 r1 where
    s1: "sort_key (\<lambda>task. hits (target task)) tasks = t1 # r1" "t1 \<in> set tasks"
        "\<forall>u \<in> set tasks. hits (target t1) \<le> hits (target u)" by blast
  have "chooseTask b creep tasks = Some t1"
    using s1(1) c f unfolding chooseTask_def by simp
  then show ?thesis using s1 by blast
qed

lemma chooseTask_near:
  assumes ne: "tasks \<noteq> []" and f: "name (hd tasks) \<noteq> ''fortify''"
    and here: "creepRoom creep = roomName (room b)"
  shows "\<exists>t. chooseTask b creep tasks = Some t \<and> t \<in> set tasks
           \<and> (\<forall>u \<in> set tasks. getRangeTo creep (target t)
                                   \<le> getRangeTo creep (target u))"
proof -
  from ne obtain first rest where c: "tasks = first # rest" by (cases tasks) auto
  from sort_key_head [OF ne, of "\<lambda>task. getRangeTo creep (target task)"] obtain t1 r1 where
    s1: "sort_key (\<lambda>task. getRangeTo creep (target task)) tasks = t1 # r1" "t1 \<in> set tasks"
        "\<forall>u \<in> set tasks. getRangeTo creep (target t1) \<le> getRangeTo creep (target u)" by blast
  have "chooseTask b creep tasks = Some t1"
    using s1(1) c f here unfolding chooseTask_def by simp
  then show ?thesis using s1 by blast
qed

lemma chooseTask_elsewhere:
  assumes ne: "tasks \<noteq> []" and f: "name (hd tasks) \<noteq> ''fortify''"
    and away: "creepRoom creep \<noteq> roomName (room b)"
  shows "chooseTask b creep tasks = Some (hd tasks)"
  using assms unfolding chooseTask_def by (cases tasks) auto

lemma assignTask_unfold:
  assumes "applicableTasks b creep = Some app"
  shows "assignTask caps b creep =
           (case chooseTask b creep (getMostUrgentTask caps b app) of
              None \<Rightarrow> NoTask | Some t \<Rightarrow> Assign t)"
  using assms by (cases "getMostUrgentTask caps b app") (simp_all add: assignTask_def Let_def chooseTask_def)

lemma assignTask_Assign:
  assumes "assignTask caps b creep = Assign t"
  shows "\<exists>app. applicableTasks b creep = Some app
           \<and> chooseTask b creep (getMostUrgentTask caps b app) = Some t"
  using assms unfolding assignTask_def
  by (auto simp add: Let_def split: option.splits if_splits)

subsection \<open>The catalogue, type by type\<close>

lemma getTasks_pickup:
  "getTasks caps b ''pickup'' =
     map (taskPickup caps) (filter (\<lambda>drop. amount drop > 100) (droppedEnergy (room b)))"
  by (simp add: getTasks_def)

lemma getTasks_collect:
  "getTasks caps b ''collect'' =
     map (taskRecharge caps) (filter (\<lambda>c. storeEnergy c > 1000) (containers (room b)))"
  by (simp add: getTasks_def)

lemma getTasks_supplyTowers:
  "getTasks caps b ''supplyTowers'' =
     map (taskSupply caps) (filter (\<lambda>s. energy s < energyCapacity s) (towers (room b)))"
  by (simp add: getTasks_def)

lemma getTasks_supply:
  "getTasks caps b ''supply'' =
     map (taskSupply caps) (filter (\<lambda>s. energy s < energyCapacity s) (sinks (room b)))"
  by (simp add: getTasks_def)

lemma getTasks_repair:
  "getTasks caps b ''repair'' = map (taskRepair caps) (filter repairWorthy (repairables (room b)))"
  by (simp add: getTasks_def)

lemma getTasks_build:
  "getTasks caps b ''build'' = map (taskBuild caps) (structureSites (room b))"
  by (simp add: getTasks_def)

lemma getTasks_buildRoads:
  "getTasks caps b ''buildRoads'' = map (taskBuild caps) (roadSites (room b))"
  by (simp add: getTasks_def)

lemma getTasks_fortify:
  "getTasks caps b ''fortify'' =
     map (taskFortify caps) (filter (\<lambda>s. hits s < effectiveFortifyLevel b) (barriers (room b)))"
  by (simp add: getTasks_def)

lemma getTasks_upgrade:
  "getTasks caps b ''upgrade'' =
     (case controller (room b) of
        None \<Rightarrow> []
      | Some c \<Rightarrow> if my c then [taskUpgrade caps c] else [])"
  by (simp add: getTasks_def split: option.splits)

lemma getTasks_unknown: "ty \<notin> set taskTypes \<Longrightarrow> getTasks caps b ty = []"
  by (simp add: getTasks_def taskTypes_def)

lemmas getTasks_known =
  getTasks_pickup getTasks_collect getTasks_supplyTowers getTasks_supply getTasks_repair
  getTasks_build getTasks_buildRoads getTasks_fortify getTasks_upgrade

lemmas task_ctor_defs =
  taskPickup_def taskRecharge_def taskSupply_def taskRepair_def taskBuild_def taskFortify_def
  taskUpgrade_def newTask_def

lemma taskTypes_cases:
  "ty \<in> set taskTypes \<Longrightarrow>
     ty = ''pickup'' \<or> ty = ''collect'' \<or> ty = ''supplyTowers'' \<or> ty = ''supply''
     \<or> ty = ''repair'' \<or> ty = ''build'' \<or> ty = ''buildRoads'' \<or> ty = ''fortify''
     \<or> ty = ''upgrade''"
  unfolding taskTypes_def by (simp only: list.set insert_iff empty_iff simp_thms)

lemma getTasks_names:
  assumes "t \<in> set (getTasks caps b ty)"
  shows "name t = (if ty = ''collect'' then ''recharge''
                   else if ty = ''supplyTowers'' then ''supply''
                   else if ty = ''buildRoads'' then ''build'' else ty)"
proof (cases "ty \<in> set taskTypes")
  case False
  from getTasks_unknown [OF False, of caps b] assms show ?thesis
    by (simp only: list.set empty_iff)
next
  case True
  from taskTypes_cases [OF True] show ?thesis
  proof (elim disjE, goal_cases)
    case 1 with assms show ?case by (clarsimp simp add: getTasks_pickup task_ctor_defs)
  next
    case 2 with assms show ?case by (clarsimp simp add: getTasks_collect task_ctor_defs)
  next
    case 3 with assms show ?case by (clarsimp simp add: getTasks_supplyTowers task_ctor_defs)
  next
    case 4 with assms show ?case by (clarsimp simp add: getTasks_supply task_ctor_defs)
  next
    case 5 with assms show ?case by (clarsimp simp add: getTasks_repair task_ctor_defs)
  next
    case 6 with assms show ?case by (clarsimp simp add: getTasks_build task_ctor_defs)
  next
    case 7 with assms show ?case by (clarsimp simp add: getTasks_buildRoads task_ctor_defs)
  next
    case 8 with assms show ?case by (clarsimp simp add: getTasks_fortify task_ctor_defs)
  next
    case 9 with assms show ?case
      by (clarsimp simp add: getTasks_upgrade task_ctor_defs split: option.splits if_splits)
  qed
qed

lemma getTasks_fortify_name: "t \<in> set (getTasks caps b ''fortify'') \<Longrightarrow> name t = ''fortify''"
  using getTasks_names [of t caps b "''fortify''"] by simp

lemma getTasks_name_fortify:
  "t \<in> set (getTasks caps b ty) \<Longrightarrow> name t = ''fortify'' \<Longrightarrow> ty = ''fortify''"
  using getTasks_names [of t caps b ty] by (simp split: if_splits)

lemma getTasks_name_pickup:
  "t \<in> set (getTasks caps b ty) \<Longrightarrow> name t = ''pickup'' \<Longrightarrow> ty = ''pickup''"
  using getTasks_names [of t caps b ty] by (simp split: if_splits)


lemma urgent_prefix:
  assumes "filter (underCap b) (getTasks caps b A) \<noteq> []"
  shows "\<exists>pre' B post'. pre @ [A] = pre' @ B # post'
           \<and> (\<forall>c \<in> set pre'. filter (underCap b) (getTasks caps b c) = [])
           \<and> filter (underCap b) (getTasks caps b B) \<noteq> []
           \<and> getMostUrgentTask caps b (pre @ A # post) = filter (underCap b) (getTasks caps b B)"
proof (induction pre)
  case Nil
  have "[] @ [A] = [] @ A # []" by simp
  moreover have "getMostUrgentTask caps b ([] @ A # post) = filter (underCap b) (getTasks caps b A)"
    using assms by (simp add: Let_def)
  ultimately show ?case using assms by (metis empty_iff list.set(1))
next
  case (Cons a pre)
  show ?case
  proof (cases "filter (underCap b) (getTasks caps b a) = []")
    case True
    from Cons.IH obtain pre' B post' where
      h: "pre @ [A] = pre' @ B # post'"
         "\<forall>c \<in> set pre'. filter (underCap b) (getTasks caps b c) = []"
         "filter (underCap b) (getTasks caps b B) \<noteq> []"
         "getMostUrgentTask caps b (pre @ A # post) = filter (underCap b) (getTasks caps b B)"
      by blast
    have "(a # pre) @ [A] = (a # pre') @ B # post'" using h(1) by simp
    moreover have "\<forall>c \<in> set (a # pre'). filter (underCap b) (getTasks caps b c) = []"
      using h(2) True by simp
    moreover have "getMostUrgentTask caps b ((a # pre) @ A # post)
                     = filter (underCap b) (getTasks caps b B)"
      using True h(4) by (simp add: Let_def)
    ultimately show ?thesis using h(3) by blast
  next
    case False
    have "(a # pre) @ [A] = [] @ a # (pre @ [A])" by simp
    moreover have "getMostUrgentTask caps b ((a # pre) @ A # post)
                     = filter (underCap b) (getTasks caps b a)"
      using False by (simp add: Let_def)
    ultimately show ?thesis using False by (metis empty_iff list.set(1))
  qed
qed

lemma filterApplicable_subseq:
  "filterApplicable b creep tys = Some app \<Longrightarrow> subseq app tys"
proof (induction tys arbitrary: app)
  case Nil
  then show ?case by simp
next
  case (Cons a tys)
  then show ?case
    by (auto split: option.splits if_splits)
qed

lemma filterApplicable_mem:
  "filterApplicable b creep tys = Some app \<Longrightarrow> ty \<in> set app \<Longrightarrow>
     \<exists>roles cond. assignmentRoles b ty = Some roles \<and> role creep \<in> set roles
        \<and> assignmentConditions b ty = Some cond \<and> cond creep"
proof (induction tys arbitrary: app)
  case Nil
  then show ?case by simp
next
  case (Cons a tys)
  then show ?case
    by (auto split: option.splits if_splits)
qed

lemma filterApplicable_total:
  assumes "\<forall>ty \<in> set tys. assignmentRoles b ty \<noteq> None \<and> assignmentConditions b ty \<noteq> None"
  shows "filterApplicable b creep tys =
           Some (filter (\<lambda>ty. role creep \<in> set (the (assignmentRoles b ty))
                              \<and> the (assignmentConditions b ty) creep) tys)"
  using assms by (induction tys) auto

subsection \<open>Brains built by the constructor\<close>

lemma new_room: "room (newRoomBrain n rm) = rm"
  by (simp add: newRoomBrain_def Let_def)

lemma new_priorities:
  "taskPriorities (newRoomBrain n rm) =
     [''supplyTowers'', ''supply'', ''pickup'', ''collect'', ''repair'', ''build'',
      ''buildRoads'', ''fortify'', ''upgrade'']"
  by (simp add: newRoomBrain_def Let_def)

lemma new_override: "overrideFortifyLevel (newRoomBrain n rm) = Map.empty"
  by (simp add: newRoomBrain_def Let_def)

lemma new_fortifyLevel:
  "effectiveFortifyLevel (newRoomBrain n rm) =
     (if filter (\<lambda>f. flagKind f = ClaimAndIncubate) (flags rm) \<noteq> [] then 10000
      else case controller rm of None \<Rightarrow> 1000000
           | Some c \<Rightarrow> min (10 ^ (max (level c) 3)) 1000000)"
  by (simp add: effectiveFortifyLevel_def newRoomBrain_def Let_def incubatingSettings_def
        normalSettings_def split: option.splits)

lemma new_roles:
  "assignmentRoles (newRoomBrain n rm) ''supplyTowers'' = Some [''supplier'', ''hauler'']"
  "assignmentRoles (newRoomBrain n rm) ''supply'' = Some [''supplier'', ''hauler'']"
  "assignmentRoles (newRoomBrain n rm) ''pickup'' = Some []"
  "assignmentRoles (newRoomBrain n rm) ''collect'' = Some [''hauler'']"
  "assignmentRoles (newRoomBrain n rm) ''repair'' = Some [''worker'', ''miner'', ''guard'']"
  "assignmentRoles (newRoomBrain n rm) ''build'' = Some [''worker'', ''miner'']"
  "assignmentRoles (newRoomBrain n rm) ''buildRoads'' = Some [''worker'', ''guard'']"
  "assignmentRoles (newRoomBrain n rm) ''fortify'' = Some [''worker'']"
  by (simp_all add: newRoomBrain_def Let_def split: option.splits)


lemma new_roles_upgrade_below:
  "controller rm = Some c \<Longrightarrow> level c \<noteq> 8 \<Longrightarrow>
     assignmentRoles (newRoomBrain n rm) ''upgrade'' = Some [''worker'', ''upgrader'']"
  by (simp add: newRoomBrain_def Let_def)

lemma new_roles_upgrade_none:
  "controller rm = None \<Longrightarrow>
     assignmentRoles (newRoomBrain n rm) ''upgrade'' = Some [''worker'', ''upgrader'']"
  by (simp add: newRoomBrain_def Let_def)

lemma new_roles_upgrade_some:
  "\<exists>y. assignmentRoles (newRoomBrain n rm) ''upgrade'' = Some y"
  by (simp add: newRoomBrain_def Let_def split: option.splits)

lemma new_conditions:
  "assignmentConditions (newRoomBrain n rm) ''supplyTowers'' = Some hasCarryAndEnergy"
  "assignmentConditions (newRoomBrain n rm) ''supply'' = Some hasCarryAndEnergy"
  "assignmentConditions (newRoomBrain n rm) ''pickup'' = Some hasCarryAndRoom"
  "assignmentConditions (newRoomBrain n rm) ''collect'' = Some hasCarryAndRoom"
  "assignmentConditions (newRoomBrain n rm) ''repair'' = Some hasWorkAndEnergy"
  "assignmentConditions (newRoomBrain n rm) ''build'' = Some hasWorkAndEnergy"
  "assignmentConditions (newRoomBrain n rm) ''buildRoads'' = Some hasWorkAndEnergy"
  "assignmentConditions (newRoomBrain n rm) ''fortify'' = Some hasWorkAndEnergy"
  "assignmentConditions (newRoomBrain n rm) ''upgrade'' = Some hasWorkAndEnergy"
  by (simp_all add: newRoomBrain_def Let_def)

lemma applicable_new:
  "applicableTasks (newRoomBrain n rm) creep =
     Some (filter (\<lambda>ty. role creep \<in> set (the (assignmentRoles (newRoomBrain n rm) ty))
                        \<and> the (assignmentConditions (newRoomBrain n rm) ty) creep)
             (taskPriorities (newRoomBrain n rm)))"
  unfolding applicableTasks_def
  by (rule filterApplicable_total)
     (simp add: new_priorities new_roles new_roles_upgrade_some new_conditions)

lemma applicable_new_mem:
  assumes "applicableTasks (newRoomBrain n rm) creep = Some app" and "ty \<in> set app"
  shows "\<exists>roles cond. assignmentRoles (newRoomBrain n rm) ty = Some roles
           \<and> role creep \<in> set roles
           \<and> assignmentConditions (newRoomBrain n rm) ty = Some cond \<and> cond creep"
  using assms unfolding applicableTasks_def by (rule filterApplicable_mem)

lemma assigned_from_applicable:
  assumes "assignTask caps b creep = Assign t"
  shows "\<exists>app ty. applicableTasks b creep = Some app \<and> ty \<in> set app
           \<and> t \<in> set (getTasks caps b ty) \<and> underCap b t"
proof -
  from assignTask_Assign [OF assms] obtain app where
    a: "applicableTasks b creep = Some app"
       "chooseTask b creep (getMostUrgentTask caps b app) = Some t" by blast
  from chooseTask_mem [OF a(2)] have m: "t \<in> set (getMostUrgentTask caps b app)" .
  then have "getMostUrgentTask caps b app \<noteq> []" by auto
  from getMostUrgentTask_first [OF this] obtain pre ty post where
    h: "app = pre @ ty # post"
       "getMostUrgentTask caps b app = filter (underCap b) (getTasks caps b ty)" by blast
  from m h(2) have "t \<in> set (getTasks caps b ty)" "underCap b t" by simp_all
  moreover from h(1) have "ty \<in> set app" by simp
  ultimately show ?thesis using a(1) by blast
qed

subsection \<open>Rounding to a double\<close>









subsection \<open>Splitting a hauler that is too large\<close>









lemma ex_spawn: "spawn exBrain = Some exSpawn"
  by (simp add: newRoomBrain_def Let_def exRoom_def exSpawn_def)






subsection \<open>The example rooms, evaluated\<close>

lemma ex_worker_applicable:
  assumes "controller rm = Some c" and "level c \<noteq> 8"
  shows "applicableTasks (newRoomBrain n rm) exWorker
           = Some ([''repair'', ''build'', ''buildRoads''] @ ''fortify'' # [''upgrade''])"
  by (simp add: applicable_new new_priorities new_roles new_conditions
        new_roles_upgrade_below [OF assms] exWorker_def
        hasWorkAndEnergy_def hasCarryAndEnergy_def hasCarryAndRoom_def)

lemma ex_traveller_applicable:
  assumes "controller rm = Some c" and "level c \<noteq> 8"
  shows "applicableTasks (newRoomBrain n rm) exTraveller
           = Some [''repair'', ''build'', ''buildRoads'', ''fortify'', ''upgrade'']"
  by (simp add: applicable_new new_priorities new_roles new_conditions
        new_roles_upgrade_below [OF assms] exWorker_def exTraveller_def
        hasWorkAndEnergy_def hasCarryAndEnergy_def hasCarryAndRoom_def)


lemma ex_hauler_applicable:
  "applicableTasks (newRoomBrain n exRoom) exHauler = Some [''collect'']"
  by (simp add: applicable_new new_priorities new_roles new_conditions
        new_roles_upgrade_below [of exRoom "exController 5"] exRoom_def ex_objects exHauler_def
        hasWorkAndEnergy_def hasCarryAndEnergy_def hasCarryAndRoom_def)

lemma ex_controller: "controller exRoom = Some (exController 5)" "level (exController 5) \<noteq> 8"
  by (simp_all add: exRoom_def exController_def)

lemma ex_controller_build:
  "controller exBuildRoom = Some (exController 5)"
  by (simp add: exBuildRoom_def exRoom_def)


lemma ex_underCap:
  assumes "targetedBy rm = (\<lambda>_. [])"
  shows "underCap (newRoomBrain n rm) (newTask exCaps nm tgt)"
  using assms
  by (simp add: underCap_def new_room newTask_def exCaps_def zero_enat_def[symmetric])

lemma ex_untargeted:
  "targetedBy exRoom = (\<lambda>_. [])" "targetedBy exBuildRoom = (\<lambda>_. [])"
  "targetedBy exRepairRoom = (\<lambda>_. [])" "targetedBy exRoom8 = (\<lambda>_. [])"
  by (simp_all add: exRoom_def exBuildRoom_def exRepairRoom_def exRoom8_def)

lemma ex_fortify_tasks:
  "getTasks exCaps (newRoomBrain n exRoom) ''fortify'' = map (taskFortify exCaps) exWalls"
  "getTasks exCaps (newRoomBrain n exRoom8) ''fortify'' = map (taskFortify exCaps) exWalls"
  by (simp_all add: getTasks_fortify new_room new_fortifyLevel exRoom_def exRoom8_def exWalls_def
        ex_objects)

lemma ex_empty:
  "getTasks exCaps (newRoomBrain n exRoom) ''repair'' = []"
  "getTasks exCaps (newRoomBrain n exRoom) ''build'' = []"
  "getTasks exCaps (newRoomBrain n exRoom) ''buildRoads'' = []"
  "getTasks exCaps (newRoomBrain n exRoom8) ''repair'' = []"
  "getTasks exCaps (newRoomBrain n exRoom8) ''build'' = []"
  "getTasks exCaps (newRoomBrain n exRoom8) ''buildRoads'' = []"
  "getTasks exCaps (newRoomBrain n exBuildRoom) ''repair'' = []"
  by (simp_all add: getTasks_repair getTasks_build getTasks_buildRoads new_room exRoom_def
        exRoom8_def exBuildRoom_def)

lemma ex_open_fortify:
  "filter (underCap (newRoomBrain n exRoom)) (getTasks exCaps (newRoomBrain n exRoom) ''fortify'')
     = map (taskFortify exCaps) exWalls"
  "filter (underCap (newRoomBrain n exRoom8)) (getTasks exCaps (newRoomBrain n exRoom8) ''fortify'')
     = map (taskFortify exCaps) exWalls"
  by (simp_all add: ex_fortify_tasks exWalls_def taskFortify_def ex_underCap ex_untargeted)

lemma ex_urgent:
  "getMostUrgentTask exCaps (newRoomBrain n exRoom)
      ([''repair'', ''build'', ''buildRoads''] @ ''fortify'' # [''upgrade''])
     = map (taskFortify exCaps) exWalls"
  "getMostUrgentTask exCaps (newRoomBrain n exRoom8)
      [''repair'', ''build'', ''buildRoads'', ''fortify'']
     = map (taskFortify exCaps) exWalls"
  by (simp_all add: ex_empty ex_open_fortify Let_def exWalls_def)

lemma ex_choose_fortify:
  "chooseTask b creep (map (taskFortify exCaps) exWalls)
     = Some (taskFortify exCaps exWall100)"
  by (simp add: chooseTask_def exWalls_def taskFortify_def newTask_def ex_objects)

lemma ex_open_build:
  "filter (underCap (newRoomBrain n exBuildRoom))
      (getTasks exCaps (newRoomBrain n exBuildRoom) ''build'')
     = map (taskBuild exCaps) exSites"
  by (simp add: getTasks_build new_room exBuildRoom_def exSites_def taskBuild_def
        ex_underCap [OF ex_untargeted(1)] underCap_def exRoom_def newTask_def exCaps_def
        zero_enat_def[symmetric])

lemma ex_urgent_build:
  "getMostUrgentTask exCaps (newRoomBrain n exBuildRoom)
      ([''repair'', ''build'', ''buildRoads''] @ ''fortify'' # [''upgrade''])
     = filter (underCap (newRoomBrain n exBuildRoom))
         (getTasks exCaps (newRoomBrain n exBuildRoom) ''build'')"
  by (simp add: ex_empty ex_open_build Let_def exSites_def)

lemma ex_open_collect:
  "filter (underCap (newRoomBrain n exRoom)) (getTasks exCaps (newRoomBrain n exRoom) ''collect'')
     = [taskRecharge exCaps exContainer]"
  by (simp add: getTasks_collect new_room exRoom_def exContainer_def exObject_def exWall500_def exWall2000_def exWall100_def exFarSite_def exNearSite_def exRoad_def exTower_def exExtension_def
        taskRecharge_def underCap_def newTask_def exCaps_def zero_enat_def[symmetric])

lemma ex_pickup:
  "getTasks exCaps (newRoomBrain n exRoom) ''pickup'' = [taskPickup exCaps exPile]"
  by (simp add: getTasks_pickup new_room exRoom_def ex_objects)

lemma ex_repair:
  "getTasks exCaps (newRoomBrain n exRepairRoom) ''repair''
     = [taskRepair exCaps exContainer,
        taskRepair exCaps exExtension]"
  by (simp add: getTasks_repair new_room exRepairRoom_def exRepairables_def ex_objects
        repairWorthy_def)

subsection \<open>Priority exhaustion\<close>

text \<open>
  Claim C2. Let the creep's applicable task types, in the order of the priority ranking,
  be \<open>pre @ A # post\<close>, and let \<open>A\<close> have a catalogued task whose target is below its
  cap. Then \<^verbatim>\<open>assignTask\<close> hands a task to \<^verbatim>\<open>creep.assign\<close>, and that task is drawn from
  the open tasks of a type \<open>B\<close> that is \<open>A\<close> itself or stands before \<open>A\<close> in the ranking,
  namely the first type with an open task; nothing ranked after \<open>A\<close> is consulted. The
  applicable types are a subsequence of \<^verbatim>\<open>taskPriorities\<close>, so the order is that of the
  ranking.
\<close>

theorem priority_exhaustion:
  assumes app: "applicableTasks b creep = Some (pre @ A # post)"
    and avail: "\<exists>w \<in> set (getTasks caps b A). underCap b w"
  shows "subseq (pre @ A # post) (taskPriorities b)
         \<and> (\<exists>pre' B post' t.
               pre @ [A] = pre' @ B # post'
               \<and> (\<forall>c \<in> set pre'. filter (underCap b) (getTasks caps b c) = [])
               \<and> getMostUrgentTask caps b (pre @ A # post)
                   = filter (underCap b) (getTasks caps b B)
               \<and> assignTask caps b creep = Assign t
               \<and> t \<in> set (getTasks caps b B) \<and> underCap b t)"
proof -
  have sub: "subseq (pre @ A # post) (taskPriorities b)"
    using app unfolding applicableTasks_def by (rule filterApplicable_subseq)
  from avail have "filter (underCap b) (getTasks caps b A) \<noteq> []"
    by (auto simp add: filter_empty_conv)
  from urgent_prefix [OF this, of pre post] obtain pre' B post' where
    h: "pre @ [A] = pre' @ B # post'"
       "\<forall>c \<in> set pre'. filter (underCap b) (getTasks caps b c) = []"
       "filter (underCap b) (getTasks caps b B) \<noteq> []"
       "getMostUrgentTask caps b (pre @ A # post) = filter (underCap b) (getTasks caps b B)"
    by blast
  from chooseTask_Some [OF h(3), of b creep] obtain t where
    t: "chooseTask b creep (filter (underCap b) (getTasks caps b B)) = Some t" by blast
  then have mem: "t \<in> set (filter (underCap b) (getTasks caps b B))" by (rule chooseTask_mem)
  have "assignTask caps b creep = Assign t"
    using assignTask_unfold [OF app, of caps] h(4) t by simp
  with h mem sub show ?thesis by auto
qed

text \<open>
  In the example room the worker may repair, build, build roads, fortify and upgrade.
  The walls are open for fortifying and the controller for upgrading; the worker is sent
  to a wall.
\<close>

theorem priority_exhaustion_witness:
  "applicableTasks exBrain exWorker
     = Some ([''repair'', ''build'', ''buildRoads''] @ ''fortify'' # [''upgrade''])
   \<and> (\<exists>w \<in> set (getTasks exCaps exBrain ''fortify'').
         underCap exBrain w)
   \<and> getTasks exCaps exBrain ''upgrade''
       = [taskUpgrade exCaps (exController 5)]
   \<and> (\<exists>pre' B post' t.
         [''repair'', ''build'', ''buildRoads''] @ [''fortify''] = pre' @ B # post'
         \<and> assignTask exCaps exBrain exWorker = Assign t
         \<and> t \<in> set (getTasks exCaps exBrain B))"
proof -
  let ?b = "exBrain"
  have app: "applicableTasks ?b exWorker
               = Some ([''repair'', ''build'', ''buildRoads''] @ ''fortify'' # [''upgrade''])"
    by (rule ex_worker_applicable [OF ex_controller])
  have "filter (underCap ?b) (getTasks exCaps ?b ''fortify'') \<noteq> []"
    by (simp add: ex_open_fortify exWalls_def)
  then have avail: "\<exists>w \<in> set (getTasks exCaps ?b ''fortify''). underCap ?b w"
    by (simp add: filter_empty_conv)
  have up: "getTasks exCaps ?b ''upgrade'' = [taskUpgrade exCaps (exController 5)]"
    by (simp add: getTasks_upgrade new_room exRoom_def exController_def)
  from priority_exhaustion [OF app avail] app avail up show ?thesis by blast
qed

subsection \<open>Tie-breaking\<close>

text \<open>
  Claim C5. When the chosen category is fortify, with the candidates \<open>tasks\<close> (the
  catalogued fortify tasks below their cap), one candidate \<open>t\<close> of least \<^verbatim>\<open>hits\<close> is handed
  to \<^verbatim>\<open>creep.assign\<close> for every creep for which fortify is the chosen category: the
  choice depends on the candidates alone, not on where the creep stands.
\<close>

theorem fortify_lowest_hits:
  assumes cands: "tasks = filter (underCap b) (getTasks caps b ''fortify'')"
    and ne: "tasks \<noteq> []"
  shows "\<exists>t. t \<in> set tasks
           \<and> (\<forall>u \<in> set tasks. hits (target t) \<le> hits (target u))
           \<and> (\<forall>creep app. applicableTasks b creep = Some app
                 \<longrightarrow> getMostUrgentTask caps b app = tasks
                 \<longrightarrow> assignTask caps b creep = Assign t)"
proof -
  from ne have "hd tasks \<in> set tasks" by simp
  then have "hd tasks \<in> set (getTasks caps b ''fortify'')" using cands by simp
  then have nm: "name (hd tasks) = ''fortify''" by (rule getTasks_fortify_name)
  from sort_key_head [OF ne, of "\<lambda>task. hits (target task)"] obtain t rest where
    t: "sort_key (\<lambda>task. hits (target task)) tasks = t # rest" "t \<in> set tasks"
       "\<forall>u \<in> set tasks. hits (target t) \<le> hits (target u)" by blast
  have indep: "chooseTask b creep tasks = Some t" for creep
    using t(1) ne nm unfolding chooseTask_def by (cases tasks) auto
  have "assignTask caps b creep = Assign t"
    if "applicableTasks b creep = Some app" "getMostUrgentTask caps b app = tasks" for creep app
    using assignTask_unfold [OF that(1), of caps] that(2) indep by simp
  with t show ?thesis by blast
qed

text \<open>
  The walls of the example room have 500, 2000 and 100 hits. The worker stands next to
  the first two, 30 steps from the third, and is sent to the third.
\<close>

theorem fortify_lowest_hits_witness:
  "map (\<lambda>t. hits (target t))
       (filter (underCap exBrain)
          (getTasks exCaps exBrain ''fortify'')) = [500, 2000, 100]
   \<and> map (\<lambda>t. getRangeTo exWorker (target t))
       (filter (underCap exBrain)
          (getTasks exCaps exBrain ''fortify'')) = [1, 1, 30]
   \<and> (\<exists>t. assignTask exCaps exBrain exWorker = Assign t
          \<and> hits (target t) = 100)"
proof -
  let ?b = "exBrain"
  let ?tasks = "filter (underCap ?b) (getTasks exCaps ?b ''fortify'')"
  have tasks: "?tasks = map (taskFortify exCaps) exWalls" by (rule ex_open_fortify)
  have hs: "map (\<lambda>t. hits (target t)) ?tasks = [500, 2000, 100]"
    by (simp add: tasks exWalls_def taskFortify_def newTask_def ex_objects)
  have rs: "map (\<lambda>t. getRangeTo exWorker (target t)) ?tasks = [1, 1, 30]"
    by (simp add: tasks exWalls_def taskFortify_def newTask_def ex_objects linearRange_def
          exWorker_def)
  have ne: "?tasks \<noteq> []" by (simp add: tasks exWalls_def)
  from fortify_lowest_hits [OF refl ne] obtain t where
    t: "t \<in> set ?tasks" "\<forall>u \<in> set ?tasks. hits (target t) \<le> hits (target u)"
       "\<forall>creep app. applicableTasks ?b creep = Some app
           \<longrightarrow> getMostUrgentTask exCaps ?b app = ?tasks
           \<longrightarrow> assignTask exCaps ?b creep = Assign t"
    by blast
  have "hits (target t) \<in> set (map (\<lambda>t. hits (target t)) ?tasks)" using t(1) by simp
  moreover have "\<forall>h \<in> set (map (\<lambda>t. hits (target t)) ?tasks). hits (target t) \<le> h"
    using t(2) by simp
  ultimately have h100: "hits (target t) = 100" by (simp add: hs)
  have "getMostUrgentTask exCaps ?b
          ([''repair'', ''build'', ''buildRoads''] @ ''fortify'' # [''upgrade'']) = ?tasks"
    by (simp only: ex_urgent tasks)
  with t(3) ex_worker_applicable [OF ex_controller, of "''W1N1''"]
  have "assignTask exCaps ?b exWorker = Assign t" by blast
  with hs rs h100 show ?thesis by blast
qed

text \<open>
  Claim C6. When the chosen category \<open>ty\<close> is not fortify, with the candidates \<open>tasks\<close>:
  a creep in the brain's room is handed a candidate of least range from its position
  (the range is what \<^verbatim>\<open>creep.pos.getRangeTo\<close> returns); a creep in another room is handed
  the first candidate in the order of the catalogue.
\<close>

theorem nearest_or_first:
  assumes app: "applicableTasks b creep = Some app"
    and chosen: "getMostUrgentTask caps b app = filter (underCap b) (getTasks caps b ty)"
    and cands: "tasks = filter (underCap b) (getTasks caps b ty)"
    and ne: "tasks \<noteq> []"
    and other: "ty \<noteq> ''fortify''"
  shows "(creepRoom creep = roomName (room b) \<longrightarrow>
            (\<exists>t. assignTask caps b creep = Assign t \<and> t \<in> set tasks
                \<and> (\<forall>u \<in> set tasks. getRangeTo creep (target t)
                                       \<le> getRangeTo creep (target u))))
         \<and> (creepRoom creep \<noteq> roomName (room b) \<longrightarrow>
              assignTask caps b creep = Assign (hd tasks))"
proof -
  from ne have "hd tasks \<in> set tasks" by simp
  then have "hd tasks \<in> set (getTasks caps b ty)" using cands by simp
  then have nm: "name (hd tasks) \<noteq> ''fortify''"
    using getTasks_name_fortify other by blast
  have a: "assignTask caps b creep =
             (case chooseTask b creep tasks of None \<Rightarrow> NoTask | Some t \<Rightarrow> Assign t)"
    using assignTask_unfold [OF app, of caps] chosen cands by simp
  show ?thesis
  proof (cases "creepRoom creep = roomName (room b)")
    case True
    from chooseTask_near [OF ne nm True] a True show ?thesis by auto
  next
    case False
    from chooseTask_elsewhere [OF ne nm False] a False show ?thesis by simp
  qed
qed

text \<open>
  With two construction sites in the example room, the first 25 steps from the worker
  and the second 2 steps: the worker in the room is sent to the second site, the
  travelling worker to the first.
\<close>

theorem nearest_or_first_witness:
  "map (\<lambda>t. getRangeTo exWorker (target t))
       (filter (underCap exBuildBrain)
          (getTasks exCaps exBuildBrain ''build'')) = [25, 2]
   \<and> creepRoom exWorker = roomName (room exBuildBrain)
   \<and> (\<exists>t. assignTask exCaps exBuildBrain exWorker = Assign t
          \<and> getRangeTo exWorker (target t) = 2)
   \<and> creepRoom exTraveller \<noteq> roomName (room exBuildBrain)
   \<and> assignTask exCaps exBuildBrain exTraveller
       = Assign (taskBuild exCaps exFarSite)"
proof -
  let ?b = "exBuildBrain"
  let ?tasks = "filter (underCap ?b) (getTasks exCaps ?b ''build'')"
  have tasks: "?tasks = map (taskBuild exCaps) exSites" by (rule ex_open_build)
  have rs: "map (\<lambda>t. getRangeTo exWorker (target t)) ?tasks = [25, 2]"
    by (simp add: tasks exSites_def taskBuild_def newTask_def ex_objects linearRange_def
          exWorker_def)
  have ne: "?tasks \<noteq> []" by (simp add: tasks exSites_def)
  have other: "''build'' \<noteq> ''fortify''" by simp
  have here: "creepRoom exWorker = roomName (room ?b)"
    by (simp add: new_room exBuildRoom_def exRoom_def exWorker_def)
  have away: "creepRoom exTraveller \<noteq> roomName (room ?b)"
    by (simp add: new_room exBuildRoom_def exRoom_def exWorker_def exTraveller_def)
  have l5: "level (exController 5) \<noteq> 8" by (simp add: exController_def)
  have app1: "applicableTasks ?b exWorker
                = Some ([''repair'', ''build'', ''buildRoads''] @ ''fortify'' # [''upgrade''])"
    by (rule ex_worker_applicable [OF ex_controller_build l5])
  have app2: "applicableTasks ?b exTraveller
                = Some ([''repair'', ''build'', ''buildRoads''] @ ''fortify'' # [''upgrade''])"
    using ex_traveller_applicable [OF ex_controller_build l5, of "''W1N1''"] by simp
  from nearest_or_first [OF app1 ex_urgent_build refl ne other] here obtain t where
    t: "assignTask exCaps ?b exWorker = Assign t" "t \<in> set ?tasks"
       "\<forall>u \<in> set ?tasks. getRangeTo exWorker (target t)
                            \<le> getRangeTo exWorker (target u)"
    by blast
  have "getRangeTo exWorker (target t)
          \<in> set (map (\<lambda>t. getRangeTo exWorker (target t)) ?tasks)"
    using t(2) by simp
  moreover have "\<forall>r \<in> set (map (\<lambda>t. getRangeTo exWorker (target t)) ?tasks).
                    getRangeTo exWorker (target t) \<le> r"
    using t(3) by simp
  ultimately have r2: "getRangeTo exWorker (target t) = 2" by (simp add: rs)
  from nearest_or_first [OF app2 ex_urgent_build refl ne other] away
  have "assignTask exCaps ?b exTraveller = Assign (hd ?tasks)" by blast
  then have tr: "assignTask exCaps ?b exTraveller
                   = Assign (taskBuild exCaps exFarSite)"
    by (simp add: tasks exSites_def)
  from rs here t(1) r2 away tr show ?thesis by blast
qed

subsection \<open>The repair catalogue\<close>

text \<open>
  Claim C7. Every task that \<^verbatim>\<open>getTasks('repair')\<close> returns is a repair task on one of
  the room's repairable structures, and that structure is damaged (\<open>hits < hitsMax\<close>); if
  it is a container or a road, its hits are below 0.7 times its maximum. No returned
  task has \<open>hits \<ge> hitsMax\<close>.
\<close>

theorem repair_catalogue:
  assumes "t \<in> set (getTasks caps b ''repair'')"
  shows "name t = ''repair''
         \<and> target t \<in> set (repairables (room b))
         \<and> hits (target t) < hitsMax (target t)
         \<and> \<not> hits (target t) \<ge> hitsMax (target t)
         \<and> (structureType (target t) = ''container'' \<or> structureType (target t) = ''road''
              \<longrightarrow> (of_int (hits (target t)) :: rat) < (7 / 10) * of_int (hitsMax (target t)))"
proof -
  from assms obtain s where
    s: "t = taskRepair caps s" "s \<in> set (repairables (room b))" "repairWorthy s"
    by (auto simp add: getTasks_repair)
  have tgt: "target t = s" "name t = ''repair''"
    by (simp_all add: s(1) taskRepair_def newTask_def)
  from s(3) have "hits s < hitsMax s"
    and "structureType s = ''container'' \<or> structureType s = ''road''
           \<longrightarrow> (of_int (hits s) :: rat) < (7 / 10) * of_int (hitsMax s)"
    unfolding repairWorthy_def by blast+
  with tgt s(2) show ?thesis by simp
qed

text \<open>
  Of a road at 80 percent, a container at 40 percent, an intact tower and an extension at
  50 percent, the container and the extension are listed.
\<close>

theorem repair_catalogue_witness:
  "getTasks exCaps exRepairBrain ''repair''
     = [taskRepair exCaps exContainer, taskRepair exCaps exExtension]
   \<and> structureType exContainer = ''container''
   \<and> (of_int (hits exContainer) :: rat) < (7 / 10) * of_int (hitsMax exContainer)"
proof -
  let ?t = "taskRepair exCaps exContainer"
  have mem: "?t \<in> set (getTasks exCaps exRepairBrain ''repair'')"
    by (simp add: ex_repair)
  have tgt: "target ?t = exContainer"
    by (simp add: taskRepair_def newTask_def)
  have st: "structureType (target ?t) = ''container''"
    by (simp add: taskRepair_def newTask_def ex_objects)
  with repair_catalogue [OF mem] have
    "(of_int (hits (target ?t)) :: rat) < (7 / 10) * of_int (hitsMax (target ?t))" by blast
  with ex_repair st show ?thesis by (simp only: tgt simp_thms)
qed

subsection \<open>Roles that a category admits\<close>

text \<open>
  Claim C9. The constructor gives the pickup category the empty list of roles. So for a
  brain built by the constructor, whatever the room and the creep, pickup is not among
  the creep's applicable task types and \<^verbatim>\<open>assignTask\<close> never hands out a pickup task,
  also when the room has dropped energy to pick up.
\<close>

theorem pickup_unreachable:
  "(applicableTasks (newRoomBrain n rm) creep = Some app \<longrightarrow> ''pickup'' \<notin> set app)
   \<and> (assignTask caps (newRoomBrain n rm) creep = Assign t \<longrightarrow> name t \<noteq> ''pickup'')"
proof (intro conjI impI notI)
  assume a: "applicableTasks (newRoomBrain n rm) creep = Some app" and m: "''pickup'' \<in> set app"
  from applicable_new_mem [OF a m] obtain roles where
    "assignmentRoles (newRoomBrain n rm) ''pickup'' = Some roles" "role creep \<in> set roles"
    by blast
  then show False by (clarsimp simp add: new_roles)
next
  assume asg: "assignTask caps (newRoomBrain n rm) creep = Assign t" and nm: "name t = ''pickup''"
  from assigned_from_applicable [OF asg] obtain app ty where
    h: "applicableTasks (newRoomBrain n rm) creep = Some app" "ty \<in> set app"
       "t \<in> set (getTasks caps (newRoomBrain n rm) ty)" by blast
  from getTasks_name_pickup [OF h(3) nm] have ty: "ty = ''pickup''" .
  from applicable_new_mem [OF h(1) h(2)] obtain roles where
    "assignmentRoles (newRoomBrain n rm) ty = Some roles" "role creep \<in> set roles" by blast
  then show False by (clarsimp simp add: ty new_roles)
qed

text \<open>
  The example room has a pile of 500 dropped energy and a container with 2000 energy. The
  empty hauler may only collect, and is sent to the container.
\<close>

theorem pickup_unreachable_witness:
  "getTasks exCaps exBrain ''pickup'' = [taskPickup exCaps exPile]
   \<and> applicableTasks exBrain exHauler = Some [''collect'']
   \<and> ''pickup'' \<notin> set [''collect'']
   \<and> assignTask exCaps exBrain exHauler
       = Assign (taskRecharge exCaps exContainer)
   \<and> name (taskRecharge exCaps exContainer) \<noteq> ''pickup''"
proof -
  let ?b = "exBrain"
  have app: "applicableTasks ?b exHauler = Some [''collect'']" by (rule ex_hauler_applicable)
  have urgent: "getMostUrgentTask exCaps ?b [''collect''] = [taskRecharge exCaps exContainer]"
    by (simp add: ex_open_collect Let_def)
  have "chooseTask ?b exHauler [taskRecharge exCaps exContainer]
          = Some (taskRecharge exCaps exContainer)"
    by (simp add: chooseTask_def taskRecharge_def newTask_def)
  then have asg: "assignTask exCaps ?b exHauler = Assign (taskRecharge exCaps exContainer)"
    by (simp only: assignTask_unfold [OF app] urgent option.case)
  have nm: "name (taskRecharge exCaps exContainer) \<noteq> ''pickup''"
    by (simp add: taskRecharge_def newTask_def)
  from pickup_unreachable [of "''W1N1''" exRoom exHauler "[''collect'']" exCaps
         "taskRecharge exCaps exContainer"] app asg ex_pickup [of "''W1N1''"] nm
  show ?thesis by simp
qed



subsection \<open>The spawn scheduler\<close>

lemma spawnFirst_logged_None:
  assumes "f s = (None, s')"
  shows "spawnFirst createCreep (logged st f # rest) (tr, s)
           = spawnFirst createCreep rest (tr @ [st], s')"
  using assms by (simp add: logged_def)

lemma spawnFirst_logged_Some:
  assumes "f s = (Some creep, s')"
  shows "spawnFirst createCreep (logged st f # rest) (tr, s)
           = (Some (createCreep creep), (tr @ [st], s'))"
  using assms by (simp add: logged_def)

text \<open>
  Claim C4. Name the answers of the four stages, each asked in the state its
  predecessor leaves: core \<open>r1\<close>, incubation \<open>r2\<close>, assigned \<open>r3\<close>, inferred \<open>r4\<close>. With a
  spawn that is not spawning, \<^verbatim>\<open>handleSpawnOperations\<close> asks the stages in this order,
  stops at the first answer that is not \<^verbatim>\<open>null\<close> and returns \<^verbatim>\<open>createCreep\<close> of that one
  answer, or \<^verbatim>\<open>null\<close> when all four are \<^verbatim>\<open>null\<close>. The log shows which stages were
  evaluated: those up to the one that answered, in order, and no later one; the state is
  the one the answering stage left. Without an available spawn no stage is evaluated.
\<close>

theorem scheduler_short_circuit:
  assumes sp: "spawn b = Some sp" and avail: "\<not> spawning sp"
    and core: "handleCoreSpawnOperations ops s0 = (r1, s1)"
    and incubation: "handleIncubationSpawnOperations ops s1 = (r2, s2)"
    and assigned: "handleAssignedSpawnOperations ops s2 = (r3, s3)"
    and inferred: "handleInferredSpawnOperations ops s3 = (r4, s4)"
  shows "handleSpawnOperations b (loggedOperations ops) createCreep ([], s0) =
           (case r1 of
              Some creep \<Rightarrow> (Some (createCreep creep), ([Core], s1))
            | None \<Rightarrow>
                (case r2 of
                   Some creep \<Rightarrow> (Some (createCreep creep), ([Core, Incubation], s2))
                 | None \<Rightarrow>
                     (case r3 of
                        Some creep \<Rightarrow>
                          (Some (createCreep creep), ([Core, Incubation, Assigned], s3))
                      | None \<Rightarrow>
                          (case r4 of
                             Some creep \<Rightarrow>
                               (Some (createCreep creep),
                                ([Core, Incubation, Assigned, Inferred], s4))
                           | None \<Rightarrow> (None, ([Core, Incubation, Assigned, Inferred], s4))))))
         \<and> handleSpawnOperations (b\<lparr>spawn := None\<rparr>) (loggedOperations ops) createCreep
               ([], s0) = (None, ([], s0))
         \<and> handleSpawnOperations (b\<lparr>spawn := Some (sp\<lparr>spawning := True\<rparr>)\<rparr>)
               (loggedOperations ops) createCreep ([], s0) = (None, ([], s0))"
proof -
  have run: "handleSpawnOperations b (loggedOperations ops) createCreep ([], s0)
        = spawnFirst createCreep
            [logged Core (handleCoreSpawnOperations ops),
             logged Incubation (handleIncubationSpawnOperations ops),
             logged Assigned (handleAssignedSpawnOperations ops),
             logged Inferred (handleInferredSpawnOperations ops)] ([], s0)"
    using sp avail by (simp add: handleSpawnOperations_def loggedOperations_def)
  have first: "handleSpawnOperations b (loggedOperations ops) createCreep ([], s0) =
           (case r1 of
              Some creep \<Rightarrow> (Some (createCreep creep), ([Core], s1))
            | None \<Rightarrow>
                (case r2 of
                   Some creep \<Rightarrow> (Some (createCreep creep), ([Core, Incubation], s2))
                 | None \<Rightarrow>
                     (case r3 of
                        Some creep \<Rightarrow>
                          (Some (createCreep creep), ([Core, Incubation, Assigned], s3))
                      | None \<Rightarrow>
                          (case r4 of
                             Some creep \<Rightarrow>
                               (Some (createCreep creep),
                                ([Core, Incubation, Assigned, Inferred], s4))
                           | None \<Rightarrow> (None, ([Core, Incubation, Assigned, Inferred], s4))))))"
  proof (cases r1)
    case (Some creep)
    from core Some have c1: "handleCoreSpawnOperations ops s0 = (Some creep, s1)" by simp
    show ?thesis
      by (simp only: run spawnFirst_logged_Some [where f = "handleCoreSpawnOperations ops" and s = s0, OF c1] Some option.case append.simps)
  next
    case n1: None
    from core n1 have c1: "handleCoreSpawnOperations ops s0 = (None, s1)" by simp
    show ?thesis
    proof (cases r2)
      case (Some creep)
      from incubation Some have c2: "handleIncubationSpawnOperations ops s1 = (Some creep, s2)"
        by simp
      show ?thesis
        by (simp only: run spawnFirst_logged_None [where f = "handleCoreSpawnOperations ops" and s = s0, OF c1] spawnFirst_logged_Some [where f = "handleIncubationSpawnOperations ops" and s = s1, OF c2]
              n1 Some option.case append.simps)
    next
      case n2: None
      from incubation n2 have c2: "handleIncubationSpawnOperations ops s1 = (None, s2)" by simp
      show ?thesis
      proof (cases r3)
        case (Some creep)
        from assigned Some have c3: "handleAssignedSpawnOperations ops s2 = (Some creep, s3)"
          by simp
        show ?thesis
          by (simp only: run spawnFirst_logged_None [where f = "handleCoreSpawnOperations ops" and s = s0, OF c1] spawnFirst_logged_None [where f = "handleIncubationSpawnOperations ops" and s = s1, OF c2]
                spawnFirst_logged_Some [where f = "handleAssignedSpawnOperations ops" and s = s2, OF c3] n1 n2 Some option.case append.simps)
      next
        case n3: None
        from assigned n3 have c3: "handleAssignedSpawnOperations ops s2 = (None, s3)" by simp
        show ?thesis
        proof (cases r4)
          case (Some creep)
          from inferred Some have c4: "handleInferredSpawnOperations ops s3 = (Some creep, s4)"
            by simp
          show ?thesis
            by (simp only: run spawnFirst_logged_None [where f = "handleCoreSpawnOperations ops" and s = s0, OF c1] spawnFirst_logged_None [where f = "handleIncubationSpawnOperations ops" and s = s1, OF c2]
                  spawnFirst_logged_None [where f = "handleAssignedSpawnOperations ops" and s = s2, OF c3] spawnFirst_logged_Some [where f = "handleInferredSpawnOperations ops" and s = s3, OF c4]
                  n1 n2 n3 Some option.case append.simps)
        next
          case None
          from inferred None have c4: "handleInferredSpawnOperations ops s3 = (None, s4)"
            by simp
          show ?thesis
            by (simp only: run spawnFirst_logged_None [where f = "handleCoreSpawnOperations ops" and s = s0, OF c1] spawnFirst_logged_None [where f = "handleIncubationSpawnOperations ops" and s = s1, OF c2]
                  spawnFirst_logged_None [where f = "handleAssignedSpawnOperations ops" and s = s2, OF c3] spawnFirst_logged_None [where f = "handleInferredSpawnOperations ops" and s = s3, OF c4]
                  n1 n2 n3 None option.case append.simps spawnFirst.simps(1))
        qed
      qed
    qed
  qed
  have none: "handleSpawnOperations (b\<lparr>spawn := None\<rparr>) (loggedOperations ops) createCreep
                ([], s0) = (None, ([], s0))"
    by (simp add: handleSpawnOperations_def)
  have busy: "handleSpawnOperations (b\<lparr>spawn := Some (sp\<lparr>spawning := True\<rparr>)\<rparr>)
                (loggedOperations ops) createCreep ([], s0) = (None, ([], s0))"
    by (simp add: handleSpawnOperations_def)
  from first none busy show ?thesis by (simp only: simp_thms)
qed

text \<open>
  In the example the core stage has nothing to build and the incubation stage asks for
  a worker: the worker is created, the assigned and inferred stages are not evaluated,
  and no flag action has been called.
\<close>

theorem scheduler_short_circuit_witness:
  "spawn exBrain = Some exSpawn \<and> \<not> spawning exSpawn
   \<and> handleCoreSpawnOperations exOperations 0 = (None, 0)
   \<and> handleIncubationSpawnOperations exOperations 0 = (Some ''worker'', 0)
   \<and> handleAssignedSpawnOperations exOperations 0 = (Some ''guard'', 1)
   \<and> handleInferredSpawnOperations exOperations 1 = (Some ''hauler'', 1)
   \<and> handleSpawnOperations exBrain (loggedOperations exOperations)
         (\<lambda>creep. creep) ([], 0)
       = (Some ''worker'', ([Core, Incubation], 0))"
proof -
  have a: "\<not> spawning exSpawn" by (simp add: exSpawn_def)
  have c: "handleCoreSpawnOperations exOperations 0 = (None, 0)"
    by (simp add: exOperations_def)
  have i: "handleIncubationSpawnOperations exOperations 0 = (Some ''worker'', 0)"
    by (simp add: exOperations_def)
  have g: "handleAssignedSpawnOperations exOperations 0 = (Some ''guard'', 1)"
    by (simp add: exOperations_def)
  have h: "handleInferredSpawnOperations exOperations 1 = (Some ''hauler'', 1)"
    by (simp add: exOperations_def)
  from scheduler_short_circuit [OF ex_spawn a c i g h, of "\<lambda>creep. creep"] ex_spawn a c i g h
  show ?thesis by simp
qed

subsection \<open>A stale target\<close>

text \<open>
  Claim C8, as the code has it. \<^verbatim>\<open>assignTask\<close> does not look at the target again and
  does not go through the candidates: when the chosen category has candidates, there is
  one candidate \<open>t\<close> among them such that, whatever the commit step \<^verbatim>\<open>creep.assign\<close>
  does, \<^verbatim>\<open>assignTask\<close> returns the commit step's answer for \<open>t\<close>. If the commit step
  refuses \<open>t\<close>, that refusal is the result and no other candidate is offered.
\<close>

theorem single_commit_attempt:
  assumes app: "applicableTasks b creep = Some app"
    and ne: "getMostUrgentTask caps b app \<noteq> []"
  shows "\<exists>t \<in> set (getMostUrgentTask caps b app).
           \<forall>assign. returned assign creep (assignTask caps b creep) = Some (assign creep t)"
proof -
  from chooseTask_Some [OF ne, of b creep] obtain t where
    t: "chooseTask b creep (getMostUrgentTask caps b app) = Some t" by blast
  then have "t \<in> set (getMostUrgentTask caps b app)" by (rule chooseTask_mem)
  moreover have "assignTask caps b creep = Assign t"
    using assignTask_unfold [OF app, of caps] t by simp
  ultimately show ?thesis by auto
qed

theorem single_commit_attempt_witness:
  "applicableTasks exBrain exWorker
     = Some ([''repair'', ''build'', ''buildRoads''] @ ''fortify'' # [''upgrade''])
   \<and> getMostUrgentTask exCaps exBrain
        ([''repair'', ''build'', ''buildRoads''] @ ''fortify'' # [''upgrade'']) \<noteq> []
   \<and> (\<exists>t \<in> set (getMostUrgentTask exCaps exBrain
                    ([''repair'', ''build'', ''buildRoads''] @ ''fortify'' # [''upgrade''])).
         \<forall>assign. returned assign exWorker
                     (assignTask exCaps exBrain exWorker)
                   = Some (assign exWorker t))"
proof -
  let ?b = "exBrain"
  have app: "applicableTasks ?b exWorker
               = Some ([''repair'', ''build'', ''buildRoads''] @ ''fortify'' # [''upgrade''])"
    by (rule ex_worker_applicable [OF ex_controller])
  have ne: "getMostUrgentTask exCaps ?b
              ([''repair'', ''build'', ''buildRoads''] @ ''fortify'' # [''upgrade'']) \<noteq> []"
    by (simp only: ex_urgent) (simp add: exWalls_def)
  from single_commit_attempt [OF app ne] app ne show ?thesis by blast
qed

text \<open>
  Claim C8 as stated asks that a candidate whose target is gone be skipped for the next
  candidate. In the example the wall of 100 hits is gone and the two other walls stand.
  The worker is offered the wall of 100 hits alone: a commit step that checks the
  target refuses it, and \<^verbatim>\<open>assignTask\<close> returns the empty string, although the commit
  step would accept the wall of 500 hits, which is among the candidates.
\<close>

theorem stale_target_counterexample:
  "assignTask exCaps exBrain exWorker = Assign (taskFortify exCaps exWall100)
   \<and> ref (target (taskFortify exCaps exWall100)) \<notin> exSurvivors
   \<and> returned exAssign exWorker (assignTask exCaps exBrain exWorker) = Some ''''
   \<and> taskFortify exCaps exWall500
       \<in> set (getMostUrgentTask exCaps exBrain
                ([''repair'', ''build'', ''buildRoads''] @ ''fortify'' # [''upgrade'']))
   \<and> ref (target (taskFortify exCaps exWall500)) \<in> exSurvivors
   \<and> exAssign exWorker (taskFortify exCaps exWall500) = ''fortify''"
proof -
  let ?b = "exBrain"
  let ?dead = "taskFortify exCaps exWall100"
  let ?live = "taskFortify exCaps exWall500"
  have app: "applicableTasks ?b exWorker
               = Some ([''repair'', ''build'', ''buildRoads''] @ ''fortify'' # [''upgrade''])"
    by (rule ex_worker_applicable [OF ex_controller])
  have asg: "assignTask exCaps ?b exWorker = Assign ?dead"
    by (simp only: assignTask_unfold [OF app] ex_urgent(1) ex_choose_fortify option.case)
  have gone: "ref (target ?dead) \<notin> exSurvivors"
    by (simp add: taskFortify_def newTask_def ex_objects exSurvivors_def)
  have idle: "returned exAssign exWorker (assignTask exCaps ?b exWorker) = Some ''''"
    using gone by (simp add: asg exAssign_def)
  have cand: "?live \<in> set (getMostUrgentTask exCaps ?b
                ([''repair'', ''build'', ''buildRoads''] @ ''fortify'' # [''upgrade'']))"
    by (simp only: ex_urgent) (simp add: exWalls_def)
  have stands: "ref (target ?live) \<in> exSurvivors"
    by (simp add: taskFortify_def newTask_def ex_objects exSurvivors_def)
  have ok: "exAssign exWorker ?live = ''fortify''"
    by (simp add: exAssign_def taskFortify_def newTask_def ex_objects exSurvivors_def)
  from asg gone idle cand stands ok show ?thesis by (simp only: simp_thms)
qed

subsection \<open>The commitment cap\<close>

























end
